theory Spec2Isabelle
  imports Main "HOL-Library.Sublist"
begin

section \<open>The file system seen by the configuration module\<close>

text \<open>
  The configuration module (\<^verbatim>\<open>updateConfig\<close>, \<^verbatim>\<open>restoreConfig\<close> and their helpers)
  talks to the disk through \<^verbatim>\<open>fs.writeFile\<close>, \<^verbatim>\<open>fs.unlink\<close>, \<^verbatim>\<open>cp-file\<close>,
  \<^verbatim>\<open>make-dir\<close> and \<^verbatim>\<open>path-exists\<close>. The disk is a map from file names to
  contents, together with the list of calls made so far (what a file-system spy would
  record). A path argument is \<open>None\<close> where the JavaScript value is \<^verbatim>\<open>undefined\<close>.
  Directories, permissions and transient I/O failures are not part of the model: an
  operation fails only for a missing file or an undefined path.
\<close>

type_synonym path = "string option"

datatype fs_op =
    PathExists path
  | Unlink path
  | CpFile path path
  | WriteFile path string
  | MakeDir string
  | ParseConfig path
  | ParseHeaders path
  | ParseRedirects path
  | Exists string
  | ReadFile string
  | AppendFile string string

datatype rejection =
    ENOENT
  | ERR_INVALID_ARG_TYPE
  | CpFileError
  | TypeError
  | External string

record fs =
  files :: "string \<rightharpoonup> string"
  ops :: "fs_op list"

text \<open>
  An asynchronous function is a state transformer that returns either the rejection
  reason or the resolved value, and the disk it leaves behind in both cases.
\<close>

type_synonym 'a io = "fs \<Rightarrow> (rejection + 'a) \<times> fs"

definition spy :: "fs_op \<Rightarrow> fs \<Rightarrow> fs" where
  "spy x s = s\<lparr>ops := ops s @ [x]\<rparr>"

definition resolve :: "'a \<Rightarrow> 'a io" where
  "resolve a s = (Inr a, s)"

definition reject :: "rejection \<Rightarrow> 'a io" where
  "reject e s = (Inl e, s)"

text \<open>\<^verbatim>\<open>await m\<close> followed by the rest of the function body: a rejection ends the body.\<close>

definition await :: "'a io \<Rightarrow> ('a \<Rightarrow> 'b io) \<Rightarrow> 'b io" where
  "await m k s = (case m s of (Inl e, s1) \<Rightarrow> (Inl e, s1) | (Inr a, s1) \<Rightarrow> k a s1)"

text \<open>
  \<^verbatim>\<open>Promise.all([a, b, c])\<close>: the three tasks have all been started, so each of them
  runs to its end whether or not another one rejects; the result is the first rejection,
  if any. The tasks are run in the order of the array, which is what the concurrent
  execution amounts to whenever they work on different paths.
\<close>

definition firstRejection ::
  "(rejection + unit) \<Rightarrow> (rejection + unit) \<Rightarrow> (rejection + unit) \<Rightarrow> rejection + unit" where
  "firstRejection r1 r2 r3 =
     (case r1 of Inl e \<Rightarrow> Inl e
      | Inr _ \<Rightarrow> (case r2 of Inl e \<Rightarrow> Inl e
         | Inr _ \<Rightarrow> (case r3 of Inl e \<Rightarrow> Inl e | Inr _ \<Rightarrow> Inr ())))"

definition Promise_all :: "unit io \<Rightarrow> unit io \<Rightarrow> unit io \<Rightarrow> unit io" where
  "Promise_all a b c s =
     (case a s of (r1, s1) \<Rightarrow>
        (case b s1 of (r2, s2) \<Rightarrow>
           (case c s2 of (r3, s3) \<Rightarrow> (firstRejection r1 r2 r3, s3))))"

subsection \<open>The library calls\<close>

text \<open>\<^verbatim>\<open>path-exists\<close>: never rejects; an undefined path does not exist.\<close>

definition present :: "(string \<rightharpoonup> string) \<Rightarrow> path \<Rightarrow> bool" where
  "present disk p = (case p of None \<Rightarrow> False | Some q \<Rightarrow> disk q \<noteq> None)"

definition pathExists :: "path \<Rightarrow> bool io" where
  "pathExists p s = (Inr (present (files s) p), spy (PathExists p) s)"

text \<open>\<^verbatim>\<open>promisify(fs.unlink)\<close>: rejects for an undefined path and for a missing file.\<close>

definition pUnlink :: "path \<Rightarrow> unit io" where
  "pUnlink p s =
     (case p of
        None \<Rightarrow> (Inl ERR_INVALID_ARG_TYPE, spy (Unlink p) s)
      | Some q \<Rightarrow>
          (if files s q = None then (Inl ENOENT, spy (Unlink p) s)
           else (Inr (), spy (Unlink p) (s\<lparr>files := (files s)(q := None)\<rparr>))))"

text \<open>\<^verbatim>\<open>promisify(fs.writeFile)\<close>: creates or replaces the file.\<close>

definition pWriteFile :: "path \<Rightarrow> string \<Rightarrow> unit io" where
  "pWriteFile p content s =
     (case p of
        None \<Rightarrow> (Inl ERR_INVALID_ARG_TYPE, spy (WriteFile p content) s)
      | Some q \<Rightarrow> (Inr (), spy (WriteFile p content) (s\<lparr>files := (files s)(q \<mapsto> content)\<rparr>)))"

text \<open>
  \<^verbatim>\<open>cp-file\<close>: rejects when either path is missing and when the source does not exist;
  otherwise the destination holds the content of the source.
\<close>

definition cpFile :: "path \<Rightarrow> path \<Rightarrow> unit io" where
  "cpFile src dest s =
     (case src of
        None \<Rightarrow> (Inl CpFileError, spy (CpFile src dest) s)
      | Some a \<Rightarrow>
          (case dest of
             None \<Rightarrow> (Inl CpFileError, spy (CpFile src dest) s)
           | Some b \<Rightarrow>
               (case files s a of
                  None \<Rightarrow> (Inl ENOENT, spy (CpFile src dest) s)
                | Some content \<Rightarrow>
                    (Inr (), spy (CpFile src dest) (s\<lparr>files := (files s)(b \<mapsto> content)\<rparr>)))))"

text \<open>\<^verbatim>\<open>make-dir\<close>: directories are not files; only the call is recorded.\<close>

definition makeDir :: "string \<Rightarrow> unit io" where
  "makeDir d s = (Inr (), spy (MakeDir d) s)"

section \<open>Persisting and restoring the configuration\<close>

text \<open>
  A configuration is a JavaScript object: a map from property names to values, where an
  absent property reads as \<^verbatim>\<open>undefined\<close>. The functions imported from the sibling
  modules (\<^verbatim>\<open>applyMutations\<close>, \<^verbatim>\<open>ensureConfigPriority\<close>, \<^verbatim>\<open>parseOptionalConfig\<close>,
  \<^verbatim>\<open>mergeConfigs\<close>, \<^verbatim>\<open>addConfigHeaders\<close>, \<^verbatim>\<open>addConfigRedirects\<close>,
  \<^verbatim>\<open>simplifyConfig\<close>, \<^verbatim>\<open>serializeToml\<close>) are parameters. Those that read the disk
  are given the files and may reject, and cannot write.
\<close>

type_synonym 'v config = "string \<rightharpoonup> 'v"

record ('v, 'm, 'c, 'b, 'l) collaborators =
  applyMutations :: "'v config \<Rightarrow> 'm list \<Rightarrow> 'v config"
  ensureConfigPriority :: "'v config \<Rightarrow> 'c \<Rightarrow> 'b \<Rightarrow> 'v config"
  parseOptionalConfig :: "path \<Rightarrow> (string \<rightharpoonup> string) \<Rightarrow> rejection + 'v config"
  mergeConfigs :: "'v config list \<Rightarrow> 'v config"
  addConfigHeaders :: "'v config \<Rightarrow> path \<Rightarrow> 'l \<Rightarrow> (string \<rightharpoonup> string) \<Rightarrow> rejection + 'v config"
  addConfigRedirects :: "'v config \<Rightarrow> path \<Rightarrow> 'l \<Rightarrow> (string \<rightharpoonup> string) \<Rightarrow> rejection + 'v config"
  simplifyConfig :: "'v config \<Rightarrow> 'v config"
  serializeToml :: "'v config \<Rightarrow> string"

text \<open>A call of a reading collaborator: recorded, and the disk is left as it is.\<close>

definition reading :: "fs_op \<Rightarrow> ((string \<rightharpoonup> string) \<Rightarrow> rejection + 'a) \<Rightarrow> 'a io" where
  "reading x f s = (f (files s), spy x s)"

text \<open>
  The second argument of \<^verbatim>\<open>updateConfig\<close> and \<^verbatim>\<open>restoreConfig\<close>. The option
  \<^verbatim>\<open>context\<close> is the field \<open>contextName\<close>.
\<close>

record ('c, 'b, 'l) opts =
  buildDir :: string
  configPath :: path
  headersPath :: path
  redirectsPath :: path
  contextName :: 'c
  branch :: 'b
  logs :: 'l

definition getTempDir :: "string \<Rightarrow> string" where
  "getTempDir dir = dir @ ''/.netlify/deploy''"

definition deleteNoError :: "path \<Rightarrow> unit io" where
  "deleteNoError p s = (Inr (), snd (pUnlink p s))"

definition backupFile :: "path \<Rightarrow> string \<Rightarrow> unit io" where
  "backupFile original backup =
     await (deleteNoError (Some backup)) (\<lambda>_.
     await (pathExists original) (\<lambda>ex.
       if \<not> ex then resolve ()
       else cpFile original (Some backup)))"

definition copyOrDelete :: "string \<Rightarrow> path \<Rightarrow> unit io" where
  "copyOrDelete src dest =
     await (pathExists (Some src)) (\<lambda>ex.
       if ex then cpFile (Some src) dest
       else deleteNoError dest)"

definition backupConfig :: "string \<Rightarrow> path \<Rightarrow> path \<Rightarrow> path \<Rightarrow> unit io" where
  "backupConfig dir cfgPath hdrPath redPath =
     (let tempDir = getTempDir dir in
      await (makeDir tempDir) (\<lambda>_.
        Promise_all
          (backupFile cfgPath (tempDir @ ''/netlify.toml''))
          (backupFile hdrPath (tempDir @ ''/_headers''))
          (backupFile redPath (tempDir @ ''/_redirects''))))"

definition restoreConfig :: "'m list \<Rightarrow> ('c, 'b, 'l) opts \<Rightarrow> unit io" where
  "restoreConfig configMutations paths =
     (if length configMutations = 0 then resolve ()
      else
        (let tempDir = getTempDir (buildDir paths) in
         Promise_all
           (copyOrDelete (tempDir @ ''/netlify.toml'') (configPath paths))
           (copyOrDelete (tempDir @ ''/_headers'') (headersPath paths))
           (copyOrDelete (tempDir @ ''/_redirects'') (redirectsPath paths))))"

definition mergeWithConfig ::
  "('v, 'm, 'c, 'b, 'l) collaborators \<Rightarrow> 'v config \<Rightarrow> path \<Rightarrow> 'v config io" where
  "mergeWithConfig X normalizedInlineConfig cfgPath =
     await (reading (ParseConfig cfgPath) (parseOptionalConfig X cfgPath)) (\<lambda>config.
       resolve (mergeConfigs X [config, normalizedInlineConfig]))"

definition saveConfig ::
  "('v, 'm, 'c, 'b, 'l) collaborators \<Rightarrow> path \<Rightarrow> 'v config \<Rightarrow> unit io" where
  "saveConfig X cfgPath simplifiedConfig =
     (let serializedConfig = serializeToml X simplifiedConfig in
      pWriteFile cfgPath serializedConfig)"

definition deleteSideFile :: "path \<Rightarrow> string \<Rightarrow> 'v config \<Rightarrow> unit io" where
  "deleteSideFile filePath propName normalizedInlineConfig =
     (if normalizedInlineConfig propName = None then resolve ()
      else if filePath = None then resolve ()
      else await (pathExists filePath) (\<lambda>ex.
        if \<not> ex then resolve ()
        else pUnlink filePath))"

definition updateConfig ::
  "('v, 'm, 'c, 'b, 'l) collaborators \<Rightarrow> 'm list \<Rightarrow> ('c, 'b, 'l) opts \<Rightarrow> unit io" where
  "updateConfig X configMutations paths =
     (if length configMutations = 0 then resolve ()
      else
        (let inlineConfig = applyMutations X Map.empty configMutations;
             normalizedInlineConfig =
               ensureConfigPriority X inlineConfig (contextName paths) (branch paths)
         in
         await (mergeWithConfig X normalizedInlineConfig (configPath paths)) (\<lambda>updatedConfig.
         await (reading (ParseHeaders (headersPath paths))
                  (addConfigHeaders X updatedConfig (headersPath paths) (logs paths)))
           (\<lambda>configWithHeaders.
         await (reading (ParseRedirects (redirectsPath paths))
                  (addConfigRedirects X configWithHeaders (redirectsPath paths) (logs paths)))
           (\<lambda>finalConfig.
         (let simplifiedConfig = simplifyConfig X finalConfig in
          await (backupConfig (buildDir paths) (configPath paths) (headersPath paths)
                   (redirectsPath paths)) (\<lambda>_.
            Promise_all
              (saveConfig X (configPath paths) simplifiedConfig)
              (deleteSideFile (headersPath paths) ''headers'' normalizedInlineConfig)
              (deleteSideFile (redirectsPath paths) ''redirects'' normalizedInlineConfig))))))))"

text \<open>
  The paths a build works with: the three backup slots under the temporary directory,
  and the live paths that were supplied. A path set is separate when the supplied live
  paths are three different files and none of them is one of the backup slots. This is
  the situation the module is written for (the backups live in a directory of their
  own), and the one in which the concurrent tasks of a \<^verbatim>\<open>Promise.all\<close> cannot
  interfere with one another.
\<close>

definition backupSlots :: "string \<Rightarrow> string list" where
  "backupSlots dir =
     [getTempDir dir @ ''/netlify.toml'', getTempDir dir @ ''/_headers'',
      getTempDir dir @ ''/_redirects'']"

definition suppliedPaths :: "('c, 'b, 'l) opts \<Rightarrow> string list" where
  "suppliedPaths paths =
     List.map_filter id [configPath paths, headersPath paths, redirectsPath paths]"

definition separatePaths :: "('c, 'b, 'l) opts \<Rightarrow> bool" where
  "separatePaths paths =
     (distinct (suppliedPaths paths) \<and>
      list_all (\<lambda>q. q \<notin> set (backupSlots (buildDir paths))) (suppliedPaths paths))"

text \<open>
  What one \<^verbatim>\<open>copyOrDelete\<close> leaves on disk, and the state in which the backup starts
  (after the three collaborators have read the disk): both are used to state and prove
  the properties below.
\<close>

definition putBack :: "string \<Rightarrow> path \<Rightarrow> (string \<rightharpoonup> string) \<Rightarrow> (string \<rightharpoonup> string)" where
  "putBack src dest disk = (case dest of None \<Rightarrow> disk | Some d \<Rightarrow> disk(d := disk src))"


section \<open>Running a command\<close>

text \<open>
  JavaScript values, as far as the code looks at them: \<^verbatim>\<open>undefined\<close>, booleans,
  numbers (whole ones), strings, and any other object. An object is a map from property
  names to values.
\<close>

datatype 'a jsval = JUndefined | JBool bool | JNumber int | JString string | JObject 'a

type_synonym 'a object = "string \<rightharpoonup> 'a jsval"

text \<open>
  The events fall into three categories. Which event belongs to which category is
  decided in the module \<^verbatim>\<open>./get\<close>; here it is a parameter \<open>cat\<close>.
\<close>

datatype category = AlwaysEligible | FailureOnly | SuccessOnly

text \<open>
  Modelled from the spec: \<^verbatim>\<open>runsOnlyOnBuildFailure\<close> is imported from \<^verbatim>\<open>./get\<close>,
  which is not among the sources. The spec says that without a build failure every
  event runs but those of the failure-only category: the predicate is the test for
  that category.
\<close>

definition runsOnlyOnBuildFailure :: "(string \<Rightarrow> category) \<Rightarrow> string \<Rightarrow> bool" where
  "runsOnlyOnBuildFailure cat event = (cat event = FailureOnly)"

text \<open>
  Modelled from the spec: \<^verbatim>\<open>runsAlsoOnBuildFailure\<close> is imported from \<^verbatim>\<open>./get\<close>,
  which is not among the sources. The spec says that after a build failure the events
  of the failure-only and of the always-eligible category run.
\<close>

definition runsAlsoOnBuildFailure :: "(string \<Rightarrow> category) \<Rightarrow> string \<Rightarrow> bool" where
  "runsAlsoOnBuildFailure cat event = (cat event = FailureOnly \<or> cat event = AlwaysEligible)"

text \<open>
  The categories of the plugin events as the comment above \<^verbatim>\<open>shouldRunCommand\<close>
  describes them: \<^verbatim>\<open>onError\<close> is triggered when the build failed, \<^verbatim>\<open>onEnd\<close> after
  the build either failed or succeeded, every other event only while the build has not
  failed.
\<close>

definition eventCategory :: "string \<Rightarrow> category" where
  "eventCategory event =
     (if event = ''onError'' then FailureOnly
      else if event = ''onEnd'' then AlwaysEligible
      else SuccessOnly)"

text \<open>
  \<^verbatim>\<open>failedPlugins.includes(packageName)\<close>: the package name is undefined for a command
  that is not a plugin's, and an array of names does not include \<^verbatim>\<open>undefined\<close>.
\<close>

definition arrayIncludes :: "string list \<Rightarrow> string option \<Rightarrow> bool" where
  "arrayIncludes xs x = (case x of None \<Rightarrow> False | Some n \<Rightarrow> n \<in> set xs)"

definition shouldRunCommand ::
  "(string \<Rightarrow> category) \<Rightarrow> string \<Rightarrow> string option \<Rightarrow> 'e option \<Rightarrow> string list \<Rightarrow> bool" where
  "shouldRunCommand cat event packageName error failedPlugins =
     (if arrayIncludes failedPlugins packageName then False
      else if error \<noteq> None then runsAlsoOnBuildFailure cat event
      else \<not> runsOnlyOnBuildFailure cat event)"

text \<open>
  The argument of \<^verbatim>\<open>runCommand\<close>: the fields the dispatcher itself looks at, and
  \<open>passed\<close> for all those it only hands on.
\<close>

record ('x, 'e) command =
  event :: string
  packageName :: "string option"
  coreCommand :: "'x option"
  coreCommandId :: "string option"
  buildCommand :: "'x option"
  index :: int
  error :: "'e option"
  failedPlugins :: "string list"
  passed :: 'x

text \<open>
  The functions \<^verbatim>\<open>runCommand\<close> imports: each may throw or reject. \<^verbatim>\<open>measureDuration\<close>
  wraps a function, with the name of the timer and, for a plugin event, the parent tag
  and the category of the timer.
\<close>

record ('x, 'e, 'k, 'r, 't, 'a) runner =
  getConstants :: "('x, 'e) command \<Rightarrow> rejection + 'k"
  logCommand :: "('x, 'e) command \<Rightarrow> rejection + unit"
  fireCoreCommand :: "('x, 'e) command \<Rightarrow> 'k \<Rightarrow> rejection + 'r"
  fireBuildCommand :: "('x, 'e) command \<Rightarrow> 'k \<Rightarrow> rejection + 'r"
  firePluginCommand :: "('x, 'e) command \<Rightarrow> 'k \<Rightarrow> rejection + 'r"
  measureDuration ::
    "(('x, 'e) command \<Rightarrow> 'k \<Rightarrow> rejection + 'r) \<Rightarrow> string \<Rightarrow> (string \<times> string) option \<Rightarrow>
       ('x, 'e) command \<Rightarrow> 'k \<Rightarrow> rejection + 't"
  normalizeTimerName :: "string option \<Rightarrow> string"
  getCommandReturn :: "('x, 'e) command \<Rightarrow> 't \<Rightarrow> rejection + 'a object"

definition tFireCommand ::
  "('x, 'e, 'k, 'r, 't, 'a) runner \<Rightarrow> ('x, 'e) command \<Rightarrow> 'k \<Rightarrow> rejection + 'r" where
  "tFireCommand R c constants =
     (if coreCommand c \<noteq> None then fireCoreCommand R c constants
      else if buildCommand c \<noteq> None then fireBuildCommand R c constants
      else firePluginCommand R c constants)"

definition getFireCommand ::
  "('x, 'e, 'k, 'r, 't, 'a) runner \<Rightarrow> ('x, 'e) command \<Rightarrow>
     ('x, 'e) command \<Rightarrow> 'k \<Rightarrow> rejection + 't" where
  "getFireCommand R c =
     (case coreCommandId c of
        Some coreId \<Rightarrow> measureDuration R (tFireCommand R) coreId None
      | None \<Rightarrow>
          (if buildCommand c \<noteq> None then measureDuration R (tFireCommand R) ''build_command'' None
           else
             (let parentTag = normalizeTimerName R (packageName c) in
              measureDuration R (tFireCommand R) (event c) (Some (parentTag, ''pluginEvent'')))))"

definition runCommand ::
  "('x, 'e, 'k, 'r, 't, 'a) runner \<Rightarrow> (string \<Rightarrow> category) \<Rightarrow> ('x, 'e) command \<Rightarrow>
     rejection + 'a object" where
  "runCommand R cat c =
     (case getConstants R c of
        Inl e \<Rightarrow> Inl e
      | Inr constantsA \<Rightarrow>
          (if \<not> shouldRunCommand cat (event c) (packageName c) (error c) (failedPlugins c)
           then Inr Map.empty
           else
             (case logCommand R c of
                Inl e \<Rightarrow> Inl e
              | Inr _ \<Rightarrow>
                  (let fireCommand = getFireCommand R c in
                   case fireCommand c constantsA of
                     Inl e \<Rightarrow> Inl e
                   | Inr fired \<Rightarrow>
                       (case getCommandReturn R c fired of
                          Inl e \<Rightarrow> Inl e
                        | Inr newValues \<Rightarrow>
                            Inr (newValues(''newIndex'' \<mapsto> JNumber (index c + 1))))))))"

section \<open>The redirects file of the functions plugin\<close>

text \<open>The calls of \<^verbatim>\<open>fs-extra\<close> that \<^verbatim>\<open>writeRedirectsFile\<close> makes, on the same disk.\<close>

definition fs_exists :: "string \<Rightarrow> bool io" where
  "fs_exists p s = (Inr (files s p \<noteq> None), spy (Exists p) s)"

definition fs_readFile :: "string \<Rightarrow> string io" where
  "fs_readFile p s =
     (case files s p of
        None \<Rightarrow> (Inl ENOENT, spy (ReadFile p) s)
      | Some content \<Rightarrow> (Inr content, spy (ReadFile p) s))"

definition fs_writeFile :: "string \<Rightarrow> string \<Rightarrow> unit io" where
  "fs_writeFile p content s =
     (Inr (), spy (WriteFile (Some p) content) (s\<lparr>files := (files s)(p \<mapsto> content)\<rparr>))"

definition fs_appendFile :: "string \<Rightarrow> string \<Rightarrow> unit io" where
  "fs_appendFile p content s =
     (Inr (), spy (AppendFile p content)
        (s\<lparr>files := (files s)(p \<mapsto>
              (case files s p of None \<Rightarrow> content | Some old \<Rightarrow> old @ content))\<rparr>))"

text \<open>How JavaScript tests and prints a value.\<close>

fun truthy :: "'a jsval \<Rightarrow> bool" where
  "truthy JUndefined = False"
| "truthy (JBool b) = b"
| "truthy (JNumber n) = (n \<noteq> 0)"
| "truthy (JString s) = (s \<noteq> [])"
| "truthy (JObject _) = True"

fun showNat :: "nat \<Rightarrow> string" where
  "showNat n =
     (if n < 10 then [char_of (48 + n)]
      else showNat (n div 10) @ [char_of (48 + n mod 10)])"

declare showNat.simps [simp del]

definition showInt :: "int \<Rightarrow> string" where
  "showInt i = (if i < 0 then ''-'' @ showNat (nat (- i)) else showNat (nat i))"

text \<open>A value inside a template literal; any other object prints as a plain object does.\<close>

fun toString :: "'a jsval \<Rightarrow> string" where
  "toString JUndefined = ''undefined''"
| "toString (JBool b) = (if b then ''true'' else ''false'')"
| "toString (JNumber n) = showInt n"
| "toString (JString s) = s"
| "toString (JObject _) = ''[object Object]''"

text \<open>\<^verbatim>\<open>haystack.indexOf(needle)\<close>: the first position of the needle, or -1.\<close>

fun indexOfFrom :: "int \<Rightarrow> string \<Rightarrow> string \<Rightarrow> int" where
  "indexOfFrom i [] needle = (if needle = [] then i else - 1)"
| "indexOfFrom i (c # cs) needle =
     (if prefix needle (c # cs) then i else indexOfFrom (i + 1) cs needle)"

definition indexOf :: "string \<Rightarrow> string \<Rightarrow> int" where
  "indexOf haystack needle = indexOfFrom 0 haystack needle"

text \<open>\<^verbatim>\<open>pieces.join(sep)\<close> on an array of strings.\<close>

fun join :: "string \<Rightarrow> string list \<Rightarrow> string" where
  "join sep [] = []"
| "join sep [x] = x"
| "join sep (x # y # ys) = x @ sep @ join sep (y # ys)"

record rewrite =
  fromPath :: string
  toPath :: string

text \<open>
  A redirect: the keys the code takes out by name, and \<open>rest\<close> for the remaining
  keys in the order in which \<^verbatim>\<open>for ... in\<close> visits them.
\<close>

record 'a redirect = rewrite +
  isPermanent :: "'a jsval"
  redirectInBrowser :: "'a jsval"
  force :: "'a jsval"
  statusCode :: "'a jsval"
  rest :: "(string \<times> 'a jsval) list"

definition HEADER_COMMENT :: string where
  "HEADER_COMMENT = ''## Created with netlify functions plugin''"

text \<open>
  The loop over the remaining keys of a redirect: a string value with a space in it is
  reported and left out, every other pair is pushed as \<^verbatim>\<open>key=value\<close>.
\<close>

fun restPieces :: "(string \<times> 'a jsval) list \<Rightarrow> string list" where
  "restPieces [] = []"
| "restPieces ((key, v) # kvs) =
     (case v of
        JString s \<Rightarrow>
          (if indexOf s '' '' \<ge> 0 then restPieces kvs
           else (key @ ''='' @ toString v) # restPieces kvs)
      | _ \<Rightarrow> (key @ ''='' @ toString v) # restPieces kvs)"

text \<open>
  One redirect as a line. \<^verbatim>\<open>status.concat\<close> exists on a string only: a forced
  redirect whose status code is not a string throws a \<^verbatim>\<open>TypeError\<close>.
\<close>

definition redirectLine :: "'a redirect \<Rightarrow> rejection + string" where
  "redirectLine r =
     (let status0 = (if truthy (isPermanent r) then JString ''301'' else JString ''302'');
          status1 = (if truthy (statusCode r) then statusCode r else status0);
          status2 =
            (if truthy (force r)
             then (case status1 of JString s \<Rightarrow> Inr (JString (s @ ''!'')) | _ \<Rightarrow> Inl TypeError)
             else Inr status1)
      in case status2 of
           Inl e \<Rightarrow> Inl e
         | Inr status \<Rightarrow>
             Inr (join ''  '' ([fromPath r, toPath r, toString status] @ restPieces (rest r))))"

text \<open>\<^verbatim>\<open>redirects.map(...)\<close>: the first exception ends the mapping.\<close>

fun mapLines :: "'a redirect list \<Rightarrow> rejection + string list" where
  "mapLines [] = Inr []"
| "mapLines (r # rs) =
     (case redirectLine r of
        Inl e \<Rightarrow> Inl e
      | Inr l \<Rightarrow> (case mapLines rs of Inl e \<Rightarrow> Inl e | Inr ls \<Rightarrow> Inr (l # ls)))"

definition rewriteLine :: "rewrite \<Rightarrow> string" where
  "rewriteLine r = fromPath r @ ''  '' @ toPath r @ ''  200''"

text \<open>
  \<^verbatim>\<open>writeRedirectsFile\<close>. Node's \<^verbatim>\<open>path.join\<close> is the parameter \<open>pathJoin\<close>.
\<close>

definition writeRedirectsFile ::
  "(string \<Rightarrow> string \<Rightarrow> string) \<Rightarrow> string \<Rightarrow> 'a redirect list \<Rightarrow> rewrite list \<Rightarrow> unit io" where
  "writeRedirectsFile pathJoin dir redirects rewrites =
     (if length redirects = 0 \<and> length rewrites = 0 then resolve ()
      else
        (let FILE_PATH = pathJoin dir ''_redirects'' in
         case mapLines redirects of
           Inl e \<Rightarrow> reject e
         | Inr redirectLines \<Rightarrow>
             (let rewriteLines = map rewriteLine rewrites in
              await (fs_exists FILE_PATH) (\<lambda>fileExists.
              await (if fileExists
                     then await (fs_readFile FILE_PATH) (\<lambda>fileContents.
                            resolve (indexOf fileContents HEADER_COMMENT < 0))
                     else resolve False) (\<lambda>appendToFile.
                (let data = HEADER_COMMENT @ ''\<newline>\<newline>'' @
                              join ''\<newline>'' (redirectLines @ rewriteLines)
                 in if appendToFile
                    then fs_appendFile FILE_PATH (''\<newline>\<newline>'' @ data)
                    else fs_writeFile FILE_PATH data))))))"

section \<open>Example inputs\<close>


definition examplePaths :: "(unit, unit, unit) opts" where
  "examplePaths =
     \<lparr>buildDir = ''/repo'',
      configPath = Some ''/repo/netlify.toml'',
      headersPath = Some ''/repo/_headers'',
      redirectsPath = Some ''/repo/_redirects'',
      contextName = (), branch = (), logs = ()\<rparr>"

definition exampleDisk :: fs where
  "exampleDisk =
     \<lparr>files = [''/repo/_headers'' \<mapsto> ''/* X-Frame-Options: DENY'',
               ''/repo/_redirects'' \<mapsto> ''/old /new''],
      ops = []\<rparr>"

text \<open>
  A runner whose collaborators all succeed, and the \<^verbatim>\<open>onBuild\<close> handler of a plugin
  that has failed earlier in the build, as the fourth command.
\<close>

definition exampleRunner :: "(unit, unit, unit, unit, unit, unit) runner" where
  "exampleRunner =
     \<lparr>getConstants = (\<lambda>c. Inr ()),
      logCommand = (\<lambda>c. Inr ()),
      fireCoreCommand = (\<lambda>c k. Inr ()),
      fireBuildCommand = (\<lambda>c k. Inr ()),
      firePluginCommand = (\<lambda>c k. Inr ()),
      measureDuration = (\<lambda>f name tags c k. f c k),
      normalizeTimerName = (\<lambda>n. case n of None \<Rightarrow> [] | Some name \<Rightarrow> name),
      getCommandReturn = (\<lambda>c t. Inr Map.empty)\<rparr>"

definition exampleCommand :: "(unit, unit) command" where
  "exampleCommand =
     \<lparr>event = ''onBuild'', packageName = Some ''plugin-a'', coreCommand = None,
      coreCommandId = None, buildCommand = None, index = 3, error = None,
      failedPlugins = [''plugin-a''], passed = ()\<rparr>"

text \<open>The result of \<^verbatim>\<open>runCommand\<close> carries \<^verbatim>\<open>newIndex\<close>, equal to \<^verbatim>\<open>index + 1\<close>.\<close>

definition carriesNextIndex :: "rejection + 'a object \<Rightarrow> ('x, 'e) command \<Rightarrow> bool" where
  "carriesNextIndex returned c =
     (case returned of
        Inl e \<Rightarrow> False
      | Inr result \<Rightarrow> result ''newIndex'' = Some (JNumber (index c + 1)))"

section \<open>Properties of the configuration module\<close>

subsection \<open>What each call leaves behind\<close>

lemmas io_defs = await_def resolve_def reject_def Promise_all_def firstRejection_def
  pathExists_def pUnlink_def pWriteFile_def cpFile_def makeDir_def deleteNoError_def spy_def


lemma Promise_all_snd:
  "snd (Promise_all a b c s) = snd (c (snd (b (snd (a s)))))"
  by (simp add: Promise_all_def split: prod.splits)







lemma copyOrDelete_files:
  "files (snd (copyOrDelete src dest s)) =
     (case dest of None \<Rightarrow> files s | Some d \<Rightarrow> (files s)(d := files s src))"
  by (auto simp add: copyOrDelete_def io_defs present_def split: option.splits)

lemma copyOrDelete_result:
  "fst (copyOrDelete src dest s) =
     (if files s src \<noteq> None \<and> dest = None then Inl CpFileError else Inr ())"
  by (auto simp add: copyOrDelete_def io_defs present_def split: option.splits)

lemma putBack_apply: "putBack src dest disk x = (if dest = Some x then disk src else disk x)"
  by (simp add: putBack_def split: option.splits)

lemma copyOrDelete_putBack: "files (snd (copyOrDelete src dest s)) = putBack src dest (files s)"
  by (simp add: copyOrDelete_files putBack_def)

lemma restoreConfig_files:
  "configMutations \<noteq> [] \<Longrightarrow>
   files (snd (restoreConfig configMutations paths s)) =
     putBack (getTempDir (buildDir paths) @ ''/_redirects'') (redirectsPath paths)
       (putBack (getTempDir (buildDir paths) @ ''/_headers'') (headersPath paths)
          (putBack (getTempDir (buildDir paths) @ ''/netlify.toml'') (configPath paths) (files s)))"
  by (simp add: restoreConfig_def Promise_all_snd copyOrDelete_putBack Let_def)












subsection \<open>Separate path sets\<close>

lemma suppliedPaths_set:
  "set (suppliedPaths paths) =
     {q. configPath paths = Some q \<or> headersPath paths = Some q \<or> redirectsPath paths = Some q}"
  by (cases "configPath paths"; cases "headersPath paths"; cases "redirectsPath paths")
     (auto simp add: suppliedPaths_def List.map_filter_simps)

lemma separate_slot:
  assumes "separatePaths paths" and "q \<in> set (backupSlots (buildDir paths))"
  shows "configPath paths \<noteq> Some q" and "headersPath paths \<noteq> Some q"
    and "redirectsPath paths \<noteq> Some q"
  using assms by (auto simp add: separatePaths_def list_all_iff suppliedPaths_set)

lemma separate_distinct:
  "separatePaths paths \<Longrightarrow>
     (configPath paths = Some q \<longrightarrow>
        headersPath paths \<noteq> Some q \<and> redirectsPath paths \<noteq> Some q) \<and>
     (headersPath paths = Some q \<longrightarrow> redirectsPath paths \<noteq> Some q)"
  by (cases "configPath paths"; cases "headersPath paths"; cases "redirectsPath paths")
     (auto simp add: separatePaths_def suppliedPaths_def List.map_filter_simps)

lemma slots:
  "getTempDir d @ ''/netlify.toml'' \<in> set (backupSlots d)"
  "getTempDir d @ ''/_headers'' \<in> set (backupSlots d)"
  "getTempDir d @ ''/_redirects'' \<in> set (backupSlots d)"
  by (simp_all add: backupSlots_def)

lemma separate_example: "separatePaths examplePaths"
  by (simp add: separatePaths_def suppliedPaths_def List.map_filter_simps examplePaths_def
      backupSlots_def getTempDir_def)

subsection \<open>Backup and restore of a whole path set\<close>




lemma restore_nothing_backed_up:
  assumes "configMutations \<noteq> []"
    and "files s (getTempDir (buildDir paths) @ ''/netlify.toml'') = None"
    and "files s (getTempDir (buildDir paths) @ ''/_headers'') = None"
    and "files s (getTempDir (buildDir paths) @ ''/_redirects'') = None"
  shows "\<not> present (files (snd (restoreConfig configMutations paths s))) (configPath paths) \<and>
         \<not> present (files (snd (restoreConfig configMutations paths s))) (headersPath paths) \<and>
         \<not> present (files (snd (restoreConfig configMutations paths s))) (redirectsPath paths)"
  using assms(2-)
  by (cases "configPath paths"; cases "headersPath paths"; cases "redirectsPath paths")
     (auto simp add: restoreConfig_files[OF assms(1)] putBack_apply present_def)

subsection \<open>Backup, restore and update\<close>

text \<open>
  C2. With an empty mutation log, \<^verbatim>\<open>updateConfig\<close> and \<^verbatim>\<open>restoreConfig\<close> resolve at
  once: the files on disk are the same and not a single file-system call (read, write,
  copy or delete) has been recorded, whatever the paths and the collaborators are.
\<close>

theorem empty_log_no_effect:
  "updateConfig X [] paths1 s = (Inr (), s) \<and> restoreConfig [] paths2 s = (Inr (), s)"
  by (simp add: updateConfig_def restoreConfig_def resolve_def)





text \<open>
  C10. \<^verbatim>\<open>restoreConfig\<close> does not ask whether a backup was ever taken: with a
  non-empty mutation log it goes straight to the three slots. A \<^verbatim>\<open>copyOrDelete\<close> whose
  backup does not exist resolves and leaves no file at its destination. So when none of
  the three backups exists, no live file is left, whatever the paths are; and for a
  separate path set, every slot without a backup loses its live file.
\<close>

theorem restore_without_backup:
  assumes "configMutations \<noteq> []"
  shows
    "(files s src = None \<longrightarrow>
        fst (copyOrDelete src dest s) = Inr () \<and>
        \<not> present (files (snd (copyOrDelete src dest s))) dest) \<and>
     (files s (getTempDir (buildDir paths) @ ''/netlify.toml'') = None \<and>
      files s (getTempDir (buildDir paths) @ ''/_headers'') = None \<and>
      files s (getTempDir (buildDir paths) @ ''/_redirects'') = None \<longrightarrow>
        \<not> present (files (snd (restoreConfig configMutations paths s))) (configPath paths) \<and>
        \<not> present (files (snd (restoreConfig configMutations paths s))) (headersPath paths) \<and>
        \<not> present (files (snd (restoreConfig configMutations paths s))) (redirectsPath paths)) \<and>
     (separatePaths paths \<longrightarrow>
        (files s (getTempDir (buildDir paths) @ ''/netlify.toml'') = None \<longrightarrow>
           \<not> present (files (snd (restoreConfig configMutations paths s))) (configPath paths)) \<and>
        (files s (getTempDir (buildDir paths) @ ''/_headers'') = None \<longrightarrow>
           \<not> present (files (snd (restoreConfig configMutations paths s))) (headersPath paths)) \<and>
        (files s (getTempDir (buildDir paths) @ ''/_redirects'') = None \<longrightarrow>
           \<not> present (files (snd (restoreConfig configMutations paths s)))
               (redirectsPath paths)))"
proof -
  have one: "files s src = None \<longrightarrow>
        fst (copyOrDelete src dest s) = Inr () \<and>
        \<not> present (files (snd (copyOrDelete src dest s))) dest"
    by (simp add: copyOrDelete_result copyOrDelete_files present_def split: option.splits)
  have slot: "(files s (getTempDir (buildDir paths) @ ''/netlify.toml'') = None \<longrightarrow>
           \<not> present (files (snd (restoreConfig configMutations paths s))) (configPath paths)) \<and>
        (files s (getTempDir (buildDir paths) @ ''/_headers'') = None \<longrightarrow>
           \<not> present (files (snd (restoreConfig configMutations paths s))) (headersPath paths)) \<and>
        (files s (getTempDir (buildDir paths) @ ''/_redirects'') = None \<longrightarrow>
           \<not> present (files (snd (restoreConfig configMutations paths s)))
               (redirectsPath paths))"
    if sp: "separatePaths paths"
  proof -
    note sep = separate_slot[OF sp slots(1)] separate_slot[OF sp slots(2)]
      separate_slot[OF sp slots(3)]
    from separate_distinct[OF sp] sep show ?thesis
      by (cases "configPath paths"; cases "headersPath paths"; cases "redirectsPath paths")
         (auto simp add: restoreConfig_files[OF assms] putBack_apply present_def)
  qed
  from one slot restore_nothing_backed_up[OF assms, of s paths] show ?thesis
    by blast
qed

text \<open>
  The example: no backup was taken, both side files are on disk, and one call of
  \<^verbatim>\<open>restoreConfig\<close> removes them.
\<close>

theorem restore_without_backup_witness:
  "[()] \<noteq> [] \<and> separatePaths examplePaths \<and>
   files exampleDisk (getTempDir (buildDir examplePaths) @ ''/netlify.toml'') = None \<and>
   files exampleDisk (getTempDir (buildDir examplePaths) @ ''/_headers'') = None \<and>
   files exampleDisk (getTempDir (buildDir examplePaths) @ ''/_redirects'') = None \<and>
   present (files exampleDisk) (headersPath examplePaths) \<and>
   present (files exampleDisk) (redirectsPath examplePaths) \<and>
   \<not> present (files (snd (restoreConfig [()] examplePaths exampleDisk))) (headersPath examplePaths) \<and>
   \<not> present (files (snd (restoreConfig [()] examplePaths exampleDisk))) (redirectsPath examplePaths) \<and>
   \<not> present (files (snd (copyOrDelete ''/repo/.netlify/deploy/_headers''
        (Some ''/repo/_headers'') exampleDisk))) (Some ''/repo/_headers'')"
proof -
  have h: "[()] \<noteq> []" by simp
  have b: "files exampleDisk (getTempDir (buildDir examplePaths) @ ''/netlify.toml'') = None \<and>
      files exampleDisk (getTempDir (buildDir examplePaths) @ ''/_headers'') = None \<and>
      files exampleDisk (getTempDir (buildDir examplePaths) @ ''/_redirects'') = None \<and>
      present (files exampleDisk) (headersPath examplePaths) \<and>
      present (files exampleDisk) (redirectsPath examplePaths)"
    by (simp add: exampleDisk_def examplePaths_def getTempDir_def present_def)
  have c: "files exampleDisk ''/repo/.netlify/deploy/_headers'' = None"
    by (simp add: exampleDisk_def)
  from h b c separate_example
    restore_without_backup[OF h, of exampleDisk "''/repo/.netlify/deploy/_headers''"
      "Some ''/repo/_headers''" examplePaths]
  show ?thesis by blast
qed






section \<open>Properties of the dispatcher\<close>

text \<open>
  C3. A command whose package name is in the list of failed plugins is not run,
  whatever the event, its category and the error state of the build are.
\<close>

theorem failed_plugin_never_runs:
  assumes "pkg = Some name" and "name \<in> set failed"
  shows "shouldRunCommand cat ev pkg err failed = False"
  using assms by (simp add: shouldRunCommand_def arrayIncludes_def)

theorem failed_plugin_never_runs_witness:
  "Some ''plugin-a'' = Some ''plugin-a'' \<and> ''plugin-a'' \<in> set [''plugin-b'', ''plugin-a''] \<and>
   shouldRunCommand eventCategory ''onEnd'' (Some ''plugin-a'') (Some ())
     [''plugin-b'', ''plugin-a''] = False \<and>
   shouldRunCommand eventCategory ''onError'' (Some ''plugin-a'') (None :: unit option)
     [''plugin-b'', ''plugin-a''] = False"
proof -
  have m: "''plugin-a'' \<in> set [''plugin-b'', ''plugin-a'']" by simp
  from m failed_plugin_never_runs[OF refl m, of eventCategory "''onEnd''" "Some ()"]
    failed_plugin_never_runs[OF refl m, of eventCategory "''onError''" "None :: unit option"]
  show ?thesis by simp
qed

text \<open>
  C4. For a package name that is not in the list of failed plugins: when the build has
  an error, the command runs exactly when the event is always-eligible or failure-only;
  when it has none, exactly when the event is not failure-only.
\<close>

theorem eligibility_by_category:
  assumes "\<not> arrayIncludes failed pkg"
  shows "(err \<noteq> None \<longrightarrow>
            shouldRunCommand cat ev pkg err failed
              = (cat ev = AlwaysEligible \<or> cat ev = FailureOnly)) \<and>
         (err = None \<longrightarrow>
            shouldRunCommand cat ev pkg err failed
              = (cat ev \<noteq> FailureOnly))"
  using assms
  by (auto simp add: shouldRunCommand_def runsAlsoOnBuildFailure_def runsOnlyOnBuildFailure_def)

theorem eligibility_by_category_witness:
  "\<not> arrayIncludes [''plugin-b''] (Some ''plugin-a'') \<and>
   shouldRunCommand eventCategory ''onError'' (Some ''plugin-a'') (Some ()) [''plugin-b''] \<and>
   shouldRunCommand eventCategory ''onEnd'' (Some ''plugin-a'') (Some ()) [''plugin-b''] \<and>
   \<not> shouldRunCommand eventCategory ''onBuild'' (Some ''plugin-a'') (Some ()) [''plugin-b''] \<and>
   \<not> shouldRunCommand eventCategory ''onError'' (Some ''plugin-a'') (None :: unit option)
       [''plugin-b''] \<and>
   shouldRunCommand eventCategory ''onEnd'' (Some ''plugin-a'') (None :: unit option)
       [''plugin-b''] \<and>
   shouldRunCommand eventCategory ''onBuild'' (Some ''plugin-a'') (None :: unit option)
       [''plugin-b'']"
proof -
  have h: "\<not> arrayIncludes [''plugin-b''] (Some ''plugin-a'')"
    by (simp add: arrayIncludes_def)
  from h
    eligibility_by_category[OF h, of "Some ()" eventCategory "''onError''"]
    eligibility_by_category[OF h, of "Some ()" eventCategory "''onEnd''"]
    eligibility_by_category[OF h, of "Some ()" eventCategory "''onBuild''"]
    eligibility_by_category[OF h, of "None :: unit option" eventCategory "''onError''"]
    eligibility_by_category[OF h, of "None :: unit option" eventCategory "''onEnd''"]
    eligibility_by_category[OF h, of "None :: unit option" eventCategory "''onBuild''"]
  show ?thesis by (simp add: eventCategory_def)
qed

text \<open>
  C1, as the claim states it, does not hold: for a command that is ruled out,
  \<^verbatim>\<open>runCommand\<close> returns the empty object, which has no \<^verbatim>\<open>newIndex\<close>. The example is
  the \<^verbatim>\<open>onBuild\<close> handler of a plugin that has already failed.
\<close>

theorem skipped_command_has_no_index:
  "runCommand exampleRunner eventCategory exampleCommand = Inr Map.empty \<and>
   \<not> carriesNextIndex (runCommand exampleRunner eventCategory exampleCommand) exampleCommand"
  by (simp add: runCommand_def exampleRunner_def exampleCommand_def shouldRunCommand_def
      arrayIncludes_def carriesNextIndex_def)

text \<open>
  C1, amended. Once the constants are resolved: a command that is ruled out yields the
  empty object; a command that is eligible, and for which logging, the executor and the
  post-processing succeed, yields the post-processed values together with
  \<^verbatim>\<open>newIndex = index + 1\<close>.
\<close>

theorem run_command_index:
  assumes "getConstants R c = Inr constants"
  shows "(\<not> shouldRunCommand cat (event c) (packageName c) (error c) (failedPlugins c) \<longrightarrow>
            runCommand R cat c = Inr Map.empty) \<and>
         (shouldRunCommand cat (event c) (packageName c) (error c) (failedPlugins c) \<and>
          logCommand R c = Inr () \<and>
          getFireCommand R c c constants = Inr fired \<and>
          getCommandReturn R c fired = Inr newValues \<longrightarrow>
            runCommand R cat c = Inr (newValues(''newIndex'' \<mapsto> JNumber (index c + 1))) \<and>
            carriesNextIndex (runCommand R cat c) c)"
  using assms by (simp add: runCommand_def carriesNextIndex_def Let_def)

theorem run_command_index_witness:
  "getConstants exampleRunner exampleCommand = Inr () \<and>
   runCommand exampleRunner eventCategory exampleCommand = Inr Map.empty \<and>
   shouldRunCommand eventCategory ''onBuild'' (Some ''plugin-a'') (None :: unit option) [] \<and>
   runCommand exampleRunner eventCategory (exampleCommand\<lparr>failedPlugins := []\<rparr>)
     = Inr [''newIndex'' \<mapsto> JNumber 4] \<and>
   carriesNextIndex (runCommand exampleRunner eventCategory (exampleCommand\<lparr>failedPlugins := []\<rparr>))
     (exampleCommand\<lparr>failedPlugins := []\<rparr>)"
proof -
  let ?c = "exampleCommand\<lparr>failedPlugins := []\<rparr>"
  have k: "getConstants exampleRunner exampleCommand = Inr ()"
    "getConstants exampleRunner ?c = Inr ()"
    by (simp_all add: exampleRunner_def)
  have skipped: "\<not> shouldRunCommand eventCategory (event exampleCommand)
      (packageName exampleCommand) (error exampleCommand) (failedPlugins exampleCommand)"
    by (simp add: shouldRunCommand_def arrayIncludes_def exampleCommand_def)
  have eligible: "shouldRunCommand eventCategory (event ?c) (packageName ?c) (error ?c)
      (failedPlugins ?c)"
    by (simp add: shouldRunCommand_def arrayIncludes_def runsOnlyOnBuildFailure_def
        eventCategory_def exampleCommand_def)
  have e: "shouldRunCommand eventCategory ''onBuild'' (Some ''plugin-a'') (None :: unit option) []"
    using eligible by (simp add: exampleCommand_def)
  have r: "logCommand exampleRunner ?c = Inr ()"
    "getFireCommand exampleRunner ?c ?c () = Inr ()"
    "getCommandReturn exampleRunner ?c () = Inr Map.empty"
    by (simp_all add: exampleRunner_def exampleCommand_def getFireCommand_def tFireCommand_def)
  have i: "index ?c + 1 = 4"
    by (simp add: exampleCommand_def)
  from run_command_index[OF k(1), where cat = eventCategory] skipped
  have a: "runCommand exampleRunner eventCategory exampleCommand = Inr Map.empty"
    by blast
  from run_command_index[OF k(2), where cat = eventCategory and fired = "()"
      and newValues = Map.empty] eligible r
  have b: "runCommand exampleRunner eventCategory ?c
             = Inr [''newIndex'' \<mapsto> JNumber (index ?c + 1)] \<and>
           carriesNextIndex (runCommand exampleRunner eventCategory ?c) ?c"
    by blast
  from k(1) a e b show ?thesis
    unfolding i by blast
qed

section \<open>Properties of the redirects writer\<close>

lemma writeRedirectsFile_fresh:
  assumes "files s (pathJoin dir ''_redirects'') = None"
    and "redirects \<noteq> [] \<or> rewrites \<noteq> []"
    and "mapLines redirects = Inr redirectLines"
  shows "fst (writeRedirectsFile pathJoin dir redirects rewrites s) = Inr ()"
    and "files (snd (writeRedirectsFile pathJoin dir redirects rewrites s)) =
      (files s)(pathJoin dir ''_redirects'' \<mapsto>
         HEADER_COMMENT @ ''\<newline>\<newline>'' @
           join ''\<newline>'' (redirectLines @ map rewriteLine rewrites))"
  using assms
  by (auto simp add: writeRedirectsFile_def Let_def await_def fs_exists_def fs_writeFile_def
      resolve_def spy_def)

lemma writeRedirectsFile_existing:
  assumes "files s (pathJoin dir ''_redirects'') = Some old"
    and "indexOf old HEADER_COMMENT < 0"
    and "redirects \<noteq> [] \<or> rewrites \<noteq> []"
    and "mapLines redirects = Inr redirectLines"
  shows "fst (writeRedirectsFile pathJoin dir redirects rewrites s) = Inr ()"
    and "files (snd (writeRedirectsFile pathJoin dir redirects rewrites s)) =
      (files s)(pathJoin dir ''_redirects'' \<mapsto>
         old @ ''\<newline>\<newline>'' @ HEADER_COMMENT @ ''\<newline>\<newline>'' @
           join ''\<newline>'' (redirectLines @ map rewriteLine rewrites))"
  using assms
  by (auto simp add: writeRedirectsFile_def Let_def await_def fs_exists_def fs_readFile_def
      fs_appendFile_def resolve_def spy_def)

lemma writeRedirectsFile_nothing:
  "writeRedirectsFile pathJoin dir [] [] s = (Inr (), s)"
  by (simp add: writeRedirectsFile_def resolve_def)

lemma writeRedirectsFile_throws:
  assumes "redirects \<noteq> [] \<or> rewrites \<noteq> []" and "mapLines redirects = Inl e"
  shows "writeRedirectsFile pathJoin dir redirects rewrites s = (Inl e, s)"
  using assms by (auto simp add: writeRedirectsFile_def Let_def reject_def)

text \<open>
  C9. With the single rewrite from \<^verbatim>\<open>/api\<close> to \<^verbatim>\<open>/.netlify/functions/api\<close>, no
  redirects and no \<^verbatim>\<open>_redirects\<close> file, the writer resolves and the file holds the
  header comment, an empty line and the one rule. When the file is there and its content
  does not contain the header comment, the old content stays and the new content is
  appended after an empty line; this is so whenever there is something to write and no
  redirect throws (otherwise nothing on disk changes).
\<close>

theorem redirects_file_written_or_appended:
  "(files s (pathJoin dir ''_redirects'') = None \<longrightarrow>
      fst (writeRedirectsFile pathJoin dir ([] :: 'a redirect list)
             [\<lparr>fromPath = ''/api'', toPath = ''/.netlify/functions/api''\<rparr>] s) = Inr () \<and>
      files (snd (writeRedirectsFile pathJoin dir ([] :: 'a redirect list)
             [\<lparr>fromPath = ''/api'', toPath = ''/.netlify/functions/api''\<rparr>] s)) =
        (files s)(pathJoin dir ''_redirects'' \<mapsto>
           ''## Created with netlify functions plugin\<newline>\<newline>/api  /.netlify/functions/api  200'')) \<and>
   (files s (pathJoin dir ''_redirects'') = Some old \<and> indexOf old HEADER_COMMENT < 0 \<longrightarrow>
      ((redirects :: 'a redirect list) = [] \<and> rewrites = [] \<longrightarrow>
         writeRedirectsFile pathJoin dir redirects rewrites s = (Inr (), s)) \<and>
      ((redirects \<noteq> [] \<or> rewrites \<noteq> []) \<and> mapLines redirects = Inl e \<longrightarrow>
         writeRedirectsFile pathJoin dir redirects rewrites s = (Inl e, s)) \<and>
      ((redirects \<noteq> [] \<or> rewrites \<noteq> []) \<and> mapLines redirects = Inr redirectLines \<longrightarrow>
         fst (writeRedirectsFile pathJoin dir redirects rewrites s) = Inr () \<and>
         files (snd (writeRedirectsFile pathJoin dir redirects rewrites s)) =
           (files s)(pathJoin dir ''_redirects'' \<mapsto>
              old @ ''\<newline>\<newline>'' @ HEADER_COMMENT @ ''\<newline>\<newline>'' @
                join ''\<newline>'' (redirectLines @ map rewriteLine rewrites))))"
proof -
  have scenario: "files s (pathJoin dir ''_redirects'') = None \<Longrightarrow>
      fst (writeRedirectsFile pathJoin dir ([] :: 'a redirect list)
             [\<lparr>fromPath = ''/api'', toPath = ''/.netlify/functions/api''\<rparr>] s) = Inr () \<and>
      files (snd (writeRedirectsFile pathJoin dir ([] :: 'a redirect list)
             [\<lparr>fromPath = ''/api'', toPath = ''/.netlify/functions/api''\<rparr>] s)) =
        (files s)(pathJoin dir ''_redirects'' \<mapsto>
           ''## Created with netlify functions plugin\<newline>\<newline>/api  /.netlify/functions/api  200'')"
    using writeRedirectsFile_fresh[of s pathJoin dir "[] :: 'a redirect list"
        "[\<lparr>fromPath = ''/api'', toPath = ''/.netlify/functions/api''\<rparr>]" "[]"]
    by (simp add: HEADER_COMMENT_def rewriteLine_def)
  from scenario writeRedirectsFile_existing[of s pathJoin dir old redirects "rewrites" redirectLines]
    writeRedirectsFile_nothing[of pathJoin dir s]
    writeRedirectsFile_throws[of redirects "rewrites" e pathJoin dir s]
  show ?thesis by blast
qed

text \<open>
  The example: the rule is written to a fresh \<^verbatim>\<open>build/_redirects\<close>, and appended to a
  file that holds a rule of the user's.
\<close>

theorem redirects_file_written_or_appended_witness:
  "files \<lparr>files = Map.empty, ops = []\<rparr> ''build/_redirects'' = None \<and>
   files (snd (writeRedirectsFile (\<lambda>a b. a @ ''/'' @ b) ''build'' ([] :: unit redirect list)
            [\<lparr>fromPath = ''/api'', toPath = ''/.netlify/functions/api''\<rparr>]
            \<lparr>files = Map.empty, ops = []\<rparr>)) ''build/_redirects'' =
     Some ''## Created with netlify functions plugin\<newline>\<newline>/api  /.netlify/functions/api  200'' \<and>
   files \<lparr>files = [''build/_redirects'' \<mapsto> ''/old  /new  301''], ops = []\<rparr> ''build/_redirects''
     = Some ''/old  /new  301'' \<and>
   indexOf ''/old  /new  301'' HEADER_COMMENT < 0 \<and>
   files (snd (writeRedirectsFile (\<lambda>a b. a @ ''/'' @ b) ''build'' ([] :: unit redirect list)
            [\<lparr>fromPath = ''/api'', toPath = ''/.netlify/functions/api''\<rparr>]
            \<lparr>files = [''build/_redirects'' \<mapsto> ''/old  /new  301''], ops = []\<rparr>))
       ''build/_redirects'' =
     Some ''/old  /new  301\<newline>\<newline>## Created with netlify functions plugin\<newline>\<newline>/api  /.netlify/functions/api  200''"
proof -
  let ?j = "\<lambda>a b. a @ ''/'' @ (b :: string)"
  let ?rw = "[\<lparr>fromPath = ''/api'', toPath = ''/.netlify/functions/api''\<rparr>]"
  let ?s1 = "\<lparr>files = Map.empty, ops = []\<rparr>"
  let ?s2 = "\<lparr>files = [''build/_redirects'' \<mapsto> ''/old  /new  301''], ops = []\<rparr>"
  have h1: "files ?s1 (?j ''build'' ''_redirects'') = None" by simp
  have h2: "files ?s2 (?j ''build'' ''_redirects'') = Some ''/old  /new  301''" by simp
  have h3: "indexOf ''/old  /new  301'' HEADER_COMMENT < 0"
    by (simp add: indexOf_def HEADER_COMMENT_def)
  have h4: "([] :: unit redirect list) \<noteq> [] \<or> ?rw \<noteq> []" by simp
  have h5: "mapLines ([] :: unit redirect list) = Inr []" by simp
  from redirects_file_written_or_appended[where ?'a = unit and s = ?s1 and pathJoin = ?j
      and dir = "''build''"] h1
  have a: "files (snd (writeRedirectsFile ?j ''build'' ([] :: unit redirect list) ?rw ?s1)) ''build/_redirects'' =
     Some ''## Created with netlify functions plugin\<newline>\<newline>/api  /.netlify/functions/api  200''"
    by simp
  from redirects_file_written_or_appended[of ?s2 ?j "''build''" "''/old  /new  301''"
      "[] :: unit redirect list" ?rw _ "[]"] h2 h3 h4 h5
  have b: "files (snd (writeRedirectsFile ?j ''build'' ([] :: unit redirect list) ?rw ?s2))
       ''build/_redirects'' =
     Some ''/old  /new  301\<newline>\<newline>## Created with netlify functions plugin\<newline>\<newline>/api  /.netlify/functions/api  200''"
    by (simp add: HEADER_COMMENT_def rewriteLine_def)
  from h1 h2 h3 a b show ?thesis by simp
qed

end
